theory Spec2Isabelle
  imports Complex_Main
begin

section \<open>Cotton price forecasting (algodao/previsoes.py)\<close>

text \<open>
  The module is a script: importing it scales the price column, cuts it into windows,
  fits three models and computes their in-sample RMSE; afterwards the dashboard calls
  \<open>previsao_lstm\<close>, \<open>previsao_mlp\<close> and \<open>previsao_reg_linear\<close>.

  Floating-point numbers are read as real numbers. A numpy array is a list (one
  dimension), a list of rows (two dimensions) or a list of matrices (three). An
  exception of Python is a value \<open>Inl e\<close>.
\<close>

datatype py_error = ValueError | IndexError

type_synonym array1 = "real list"
type_synonym array2 = "real list list"
type_synonym array3 = "real list list list"

subsection \<open>sklearn.preprocessing.MinMaxScaler on one column\<close>

text \<open>
  \<open>dados\<close> has shape (n, 1), so every fitted attribute of the scaler is an array
  of one element; the record holds that element. The default \<open>feature_range\<close>
  is (0, 1). A range below ten machine epsilons is replaced by 1 before the division
  (sklearn's \<open>_handle_zeros_in_scale\<close>), so a constant column is not an error.
\<close>

record MinMaxScaler =
  data_min :: real
  data_max :: real
  data_range :: real
  scale_val :: real
  min_val :: real

definition float_eps :: real where
  "float_eps = 1 / 2 ^ 52"

definition handle_zeros_in_scale :: "real \<Rightarrow> real" where
  "handle_zeros_in_scale s = (if s < 10 * float_eps then 1 else s)"

definition column0 :: "array2 \<Rightarrow> array1" where
  "column0 a = map (\<lambda>r. r ! 0) a"

definition fit :: "array2 \<Rightarrow> py_error + MinMaxScaler" where
  "fit a =
     (if a = [] then Inl ValueError
      else
        let dmin = Min (set (column0 a));
            dmax = Max (set (column0 a));
            rng = dmax - dmin;
            s = (1 - 0) / handle_zeros_in_scale rng
        in Inr \<lparr>data_min = dmin, data_max = dmax, data_range = rng,
                scale_val = s, min_val = 0 - dmin * s\<rparr>)"

definition transform1 :: "MinMaxScaler \<Rightarrow> real \<Rightarrow> real" where
  "transform1 sc x = x * scale_val sc + min_val sc"

definition inverse1 :: "MinMaxScaler \<Rightarrow> real \<Rightarrow> real" where
  "inverse1 sc x = (x - min_val sc) / scale_val sc"

definition transform :: "MinMaxScaler \<Rightarrow> array2 \<Rightarrow> array2" where
  "transform sc a = map (map (transform1 sc)) a"

definition inverse_transform :: "MinMaxScaler \<Rightarrow> array2 \<Rightarrow> array2" where
  "inverse_transform sc a = map (map (inverse1 sc)) a"

definition fit_transform :: "array2 \<Rightarrow> py_error + MinMaxScaler \<times> array2" where
  "fit_transform a =
     (case fit a of Inl e \<Rightarrow> Inl e | Inr sc \<Rightarrow> Inr (sc, transform sc a))"

subsection \<open>Windows\<close>

definition window :: nat where
  "window = 10"

text \<open>\<open>a[lo:hi]\<close> for indices that are not negative.\<close>

definition slice :: "'a list \<Rightarrow> nat \<Rightarrow> nat \<Rightarrow> 'a list" where
  "slice a lo hi = take (hi - lo) (drop lo a)"

text \<open>
  Lines 15 to 19: the loop over \<open>range(window, len(dados_scaled))\<close> appends one
  window and one target per index.
\<close>

definition prepare_windows :: "array2 \<Rightarrow> array2 \<times> array1" where
  "prepare_windows ds =
     foldl (\<lambda>(X, y) i. (X @ [column0 (slice ds (i - window) i)], y @ [ds ! i ! 0]))
       ([], []) [window..<length ds]"

text \<open>
  Line 20, \<open>X.reshape((X.shape[0], X.shape[1], 1))\<close>. An empty list of windows becomes
  an array of shape (0,), whose \<open>shape[1]\<close> does not exist.
\<close>

definition reshape_lstm :: "array2 \<Rightarrow> py_error + array3" where
  "reshape_lstm X = (if X = [] then Inl IndexError else Inr (map (map (\<lambda>v. [v])) X))"

text \<open>\<open>y.reshape(-1, 1)\<close>.\<close>

definition reshape_col :: "array1 \<Rightarrow> array2" where
  "reshape_col v = map (\<lambda>x. [x]) v"

subsection \<open>Models and error metric\<close>

text \<open>
  A trained model is an opaque function from one sample to one normalized price. The
  three fitting routines are parameters: Keras and sklearn are not part of the module.
  \<open>predict\<close> applies the model to every sample of a batch; the Keras models end in
  \<open>Dense(1)\<close> and return shape (n, 1), the linear regression returns shape (n,).
\<close>

record learners =
  fit_lstm :: "array3 \<Rightarrow> array1 \<Rightarrow> array2 \<Rightarrow> real"
  fit_mlp :: "array2 \<Rightarrow> array1 \<Rightarrow> array1 \<Rightarrow> real"
  fit_lr :: "array2 \<Rightarrow> array1 \<Rightarrow> array1 \<Rightarrow> real"

definition keras_predict :: "('s \<Rightarrow> real) \<Rightarrow> 's list \<Rightarrow> array2" where
  "keras_predict net a = map (\<lambda>s. [net s]) a"

definition lr_predict :: "(array1 \<Rightarrow> real) \<Rightarrow> array2 \<Rightarrow> array1" where
  "lr_predict m a = map m a"

definition mean :: "real list \<Rightarrow> real" where
  "mean xs = sum_list xs / real (length xs)"

text \<open>
  \<open>sklearn.metrics.mean_squared_error\<close> with its defaults: the squared differences are
  averaged per column and the columns uniformly, which for arrays of one shape is the
  mean over all entries. No sample, or two different shapes, is a ValueError.
\<close>

definition mean_squared_error :: "array2 \<Rightarrow> array2 \<Rightarrow> py_error + real" where
  "mean_squared_error y_true y_pred =
     (if y_true = [] \<or> map length y_true \<noteq> map length y_pred then Inl ValueError
      else Inr (mean (map2 (\<lambda>t p. (t - p)\<^sup>2) (concat y_true) (concat y_pred))))"

subsection \<open>The module\<close>

record module_state =
  scaler :: MinMaxScaler
  dados_scaled :: array2
  X_arr :: array2
  y_arr :: array1
  X_lstm :: array3
  model_lstm :: "array2 \<Rightarrow> real"
  rmse_lstm_reais :: real
  model_mlp :: "array1 \<Rightarrow> real"
  rmse_mlp_reais :: real
  model_lr :: "array1 \<Rightarrow> real"
  rmse_lr_reais :: real

text \<open>
  Importing the module, on the column \<open>Preco_R$\<close> of the data frame. The first
  exception ends the import.
\<close>

definition startup :: "learners \<Rightarrow> real list \<Rightarrow> py_error + module_state" where
  "startup lrn precos =
     (let dados = map (\<lambda>p. [p]) precos in
      case fit_transform dados of
        Inl e \<Rightarrow> Inl e
      | Inr (sc, ds) \<Rightarrow>
         (let (X, y) = prepare_windows ds in
          case reshape_lstm X of
            Inl e \<Rightarrow> Inl e
          | Inr Xl \<Rightarrow>
             (let m_lstm = fit_lstm lrn Xl y;
                  y_pred_lstm = keras_predict m_lstm Xl;
                  y_pred_lstm_original = inverse_transform sc y_pred_lstm;
                  y_original = inverse_transform sc (reshape_col y) in
              case mean_squared_error y_original y_pred_lstm_original of
                Inl e \<Rightarrow> Inl e
              | Inr mse_lstm_reais \<Rightarrow>
                 (let m_mlp = fit_mlp lrn X y;
                      y_pred_mlp = keras_predict m_mlp X;
                      y_pred_mlp_original = inverse_transform sc y_pred_mlp in
                  case mean_squared_error y_original y_pred_mlp_original of
                    Inl e \<Rightarrow> Inl e
                  | Inr mse_mlp_reais \<Rightarrow>
                     (let m_lr = fit_lr lrn X y;
                          y_pred_lr = lr_predict m_lr X;
                          y_pred_lr_original =
                            inverse_transform sc (reshape_col y_pred_lr) in
                      case mean_squared_error y_original y_pred_lr_original of
                        Inl e \<Rightarrow> Inl e
                      | Inr mse_lr_reais \<Rightarrow>
                          Inr \<lparr>scaler = sc, dados_scaled = ds, X_arr = X, y_arr = y,
                               X_lstm = Xl,
                               model_lstm = m_lstm, rmse_lstm_reais = sqrt mse_lstm_reais,
                               model_mlp = m_mlp, rmse_mlp_reais = sqrt mse_mlp_reais,
                               model_lr = m_lr, rmse_lr_reais = sqrt mse_lr_reais\<rparr>)))))"

subsection \<open>Predicting the next price\<close>

text \<open>\<open>dados_scaled[-window:]\<close>: a start before the first row is clipped to it.\<close>

definition last_window :: "array2 \<Rightarrow> array2" where
  "last_window ds = drop (length ds - window) ds"

text \<open>
  \<open>reshape((1, window, 1))\<close> and \<open>reshape((1, window))\<close>: a ValueError unless the
  array has exactly \<open>window\<close> entries.
\<close>

definition reshape_1_w_1 :: "array2 \<Rightarrow> py_error + array3" where
  "reshape_1_w_1 a =
     (if length (concat a) \<noteq> window then Inl ValueError
      else Inr [map (\<lambda>v. [v]) (concat a)])"

definition reshape_1_w :: "array2 \<Rightarrow> py_error + array2" where
  "reshape_1_w a =
     (if length (concat a) \<noteq> window then Inl ValueError else Inr [concat a])"

definition previsao_lstm :: "module_state \<Rightarrow> py_error + real" where
  "previsao_lstm st =
     (case reshape_1_w_1 (last_window (dados_scaled st)) of Inl e \<Rightarrow> Inl e
      | Inr entrada \<Rightarrow>
        let pred = keras_predict (model_lstm st) entrada
        in Inr (inverse_transform (scaler st) pred ! 0 ! 0))"

definition previsao_mlp :: "module_state \<Rightarrow> py_error + real" where
  "previsao_mlp st =
     (case reshape_1_w (last_window (dados_scaled st)) of Inl e \<Rightarrow> Inl e
      | Inr entrada \<Rightarrow>
        let pred = keras_predict (model_mlp st) entrada
        in Inr (inverse_transform (scaler st) pred ! 0 ! 0))"

definition previsao_reg_linear :: "module_state \<Rightarrow> py_error + real" where
  "previsao_reg_linear st =
     (case reshape_1_w (last_window (dados_scaled st)) of Inl e \<Rightarrow> Inl e
      | Inr entrada \<Rightarrow>
        let pred = lr_predict (model_lr st) entrada
        in Inr (inverse_transform (scaler st) (reshape_col pred) ! 0 ! 0))"

subsection \<open>Min-max scaling and the error metric in the specification's words\<close>

text \<open>
  Written from the price series alone, without the scaler object: the range the prices
  are divided by (the maximum minus the minimum, or 1 when that is below ten machine
  epsilons), a price in normalized units, and a normalized value back in price units.
\<close>

definition scale_range :: "real list \<Rightarrow> real" where
  "scale_range S =
     (if Max (set S) - Min (set S) < 10 * float_eps then 1 else Max (set S) - Min (set S))"

definition normalized :: "real list \<Rightarrow> real \<Rightarrow> real" where
  "normalized S p = (p - Min (set S)) / scale_range S"

definition to_price :: "real list \<Rightarrow> real \<Rightarrow> real" where
  "to_price S v = Min (set S) + v * scale_range S"

text \<open>
  RMSE = sqrt(mean((inverse(pred) - inverse(actual)) squared)), the mean written out
  as the sum over the samples divided by their number.
\<close>

definition spec_rmse :: "(real \<Rightarrow> real) \<Rightarrow> array1 \<Rightarrow> array1 \<Rightarrow> real" where
  "spec_rmse inverse_fn pred actual =
     sqrt (sum_list (map (\<lambda>i. (inverse_fn (pred ! i) - inverse_fn (actual ! i))\<^sup>2)
             [0..<length pred])
           / real (length pred))"

subsection \<open>Concrete inputs\<close>

text \<open>
  The series of the specification's scenarios, a series shorter than the window, and
  learners whose every model predicts the normalized price 0.
\<close>

definition series12 :: "real list" where
  "series12 = [10, 12, 11, 13, 15, 14, 16, 18, 17, 19, 20, 21]"

definition const12 :: "real list" where
  "const12 = replicate 12 15"

definition short3 :: "real list" where
  "short3 = [10, 12, 11]"

definition zero_learners :: learners where
  "zero_learners =
     \<lparr>fit_lstm = (\<lambda>X y s. 0), fit_mlp = (\<lambda>X y s. 0), fit_lr = (\<lambda>X y s. 0)\<rparr>"

text \<open>Learners whose networks predict the normalized price 1.\<close>

definition one_learners :: learners where
  "one_learners =
     \<lparr>fit_lstm = (\<lambda>X y s. 1), fit_mlp = (\<lambda>X y s. 1), fit_lr = (\<lambda>X y s. 0)\<rparr>"

section \<open>Properties\<close>

subsection \<open>The window loop\<close>

lemma foldl_append_pair:
  "foldl (\<lambda>(X, y) i. (X @ [f i], y @ [g i])) (X0, y0) is = (X0 @ map f is, y0 @ map g is)"
  by (induction "is" arbitrary: X0 y0) simp_all

lemma prepare_windows_eq:
  "prepare_windows ds =
     (map (\<lambda>i. column0 (slice ds (i - window) i)) [window..<length ds],
      map (\<lambda>i. ds ! i ! 0) [window..<length ds])"
  unfolding prepare_windows_def by (simp add: foldl_append_pair)

lemma length_prepare_windows:
  "length (fst (prepare_windows ds)) = length ds - window"
  "length (snd (prepare_windows ds)) = length ds - window"
  by (simp_all add: prepare_windows_eq)

lemma slice_nth:
  assumes "lo + k \<le> length a"
  shows "slice a lo (lo + k) = map (\<lambda>j. a ! (lo + j)) [0..<k]"
  using assms by (auto simp: slice_def intro!: nth_equalityI)

lemma prepare_windows_nth:
  assumes "prepare_windows ds = (X, y)" "i < length ds - window"
  shows "X ! i = map (\<lambda>j. ds ! (i + j) ! 0) [0..<window]"
    and "y ! i = ds ! (i + window) ! 0"
proof -
  have X: "X = map (\<lambda>i. column0 (slice ds (i - window) i)) [window..<length ds]"
    and y: "y = map (\<lambda>i. ds ! i ! 0) [window..<length ds]"
    using assms(1) by (simp_all add: prepare_windows_eq)
  have "X ! i = column0 (slice ds i (i + window))"
    using assms(2) by (simp add: X add.commute)
  also have "\<dots> = map (\<lambda>j. ds ! (i + j) ! 0) [0..<window]"
    using assms(2) by (simp add: slice_nth column0_def)
  finally show "X ! i = map (\<lambda>j. ds ! (i + j) ! 0) [0..<window]" .
  show "y ! i = ds ! (i + window) ! 0"
    using assms(2) by (simp add: y add.commute)
qed

lemma upt_window: "[0..<window] = [0, 1, 2, 3, 4, 5, 6, 7, 8, 9]"
  unfolding window_def by (simp add: upt_rec)

subsection \<open>Column arrays\<close>

lemma keras_predict_col: "keras_predict net a = reshape_col (map net a)"
  by (simp add: keras_predict_def reshape_col_def)

lemma concat_reshape_col: "concat (reshape_col v) = v"
  by (induction v) (simp_all add: reshape_col_def)

lemma inverse_transform_col:
  "inverse_transform sc (reshape_col v) = reshape_col (map (inverse1 sc) v)"
  by (simp add: inverse_transform_def reshape_col_def)

lemma transform_col:
  "transform sc (map (\<lambda>p. [p]) ps) = reshape_col (map (transform1 sc) ps)"
  by (simp add: transform_def reshape_col_def)

lemma map_length_reshape_col: "map length (reshape_col v) = replicate (length v) 1"
  by (induction v) (simp_all add: reshape_col_def)

lemma mse_col:
  assumes "t \<noteq> []" "length t = length p"
  shows "mean_squared_error (reshape_col t) (reshape_col p) =
           Inr (mean (map2 (\<lambda>a b. (a - b)\<^sup>2) t p))"
  using assms
  by (simp add: mean_squared_error_def map_length_reshape_col concat_reshape_col)
     (simp add: reshape_col_def)

subsection \<open>What the import computes\<close>

lemma fit_transform_nonempty:
  "ps \<noteq> [] \<Longrightarrow> \<exists>sc. fit (map (\<lambda>p. [p]) ps) = Inr sc \<and>
      fit_transform (map (\<lambda>p. [p]) ps) = Inr (sc, reshape_col (map (transform1 sc) ps))"
  by (simp add: fit_transform_def fit_def Let_def transform_col)

lemma startup_long:
  assumes "window < length ps"
  shows "\<exists>st. startup lrn ps = Inr st \<and>
           fit (map (\<lambda>p. [p]) ps) = Inr (scaler st) \<and>
           dados_scaled st = reshape_col (map (transform1 (scaler st)) ps) \<and>
           prepare_windows (dados_scaled st) = (X_arr st, y_arr st) \<and>
           X_lstm st = map (map (\<lambda>v. [v])) (X_arr st) \<and>
           model_lstm st = fit_lstm lrn (X_lstm st) (y_arr st) \<and>
           model_mlp st = fit_mlp lrn (X_arr st) (y_arr st) \<and>
           model_lr st = fit_lr lrn (X_arr st) (y_arr st) \<and>
           rmse_lstm_reais st =
             sqrt (mean (map2 (\<lambda>a b. (a - b)\<^sup>2) (map (inverse1 (scaler st)) (y_arr st))
               (map (inverse1 (scaler st)) (map (model_lstm st) (X_lstm st))))) \<and>
           rmse_mlp_reais st =
             sqrt (mean (map2 (\<lambda>a b. (a - b)\<^sup>2) (map (inverse1 (scaler st)) (y_arr st))
               (map (inverse1 (scaler st)) (map (model_mlp st) (X_arr st))))) \<and>
           rmse_lr_reais st =
             sqrt (mean (map2 (\<lambda>a b. (a - b)\<^sup>2) (map (inverse1 (scaler st)) (y_arr st))
               (map (inverse1 (scaler st)) (map (model_lr st) (X_arr st)))))"
proof -
  from assms have "ps \<noteq> []" by auto
  then obtain sc where sc: "fit (map (\<lambda>p. [p]) ps) = Inr sc"
    and ft: "fit_transform (map (\<lambda>p. [p]) ps) = Inr (sc, reshape_col (map (transform1 sc) ps))"
    using fit_transform_nonempty by blast
  define ds where "ds = reshape_col (map (transform1 sc) ps)"
  obtain X y where pw: "prepare_windows ds = (X, y)" by (cases "prepare_windows ds")
  have lds: "length ds = length ps" by (simp add: ds_def reshape_col_def)
  have lX: "length X = length ps - window" and ly: "length y = length ps - window"
    using length_prepare_windows [of ds] pw lds by simp_all
  have Xne: "X \<noteq> []" and yne: "y \<noteq> []" using lX ly assms by auto
  have mse: "mean_squared_error (inverse_transform sc (reshape_col y))
               (inverse_transform sc (reshape_col (map f Z))) =
             Inr (mean (map2 (\<lambda>a b. (a - b)\<^sup>2) (map (inverse1 sc) y)
               (map (inverse1 sc) (map f Z))))"
    if "length Z = length X" for f :: "'z \<Rightarrow> real" and Z
    using that yne lX ly by (simp add: inverse_transform_col mse_col)
  show ?thesis
    unfolding startup_def
    by (simp add: ft ds_def [symmetric] pw reshape_lstm_def Xne keras_predict_col
        lr_predict_def mse Let_def sc comp_assoc)
qed

lemma startup_short:
  assumes "ps \<noteq> []" "length ps \<le> window"
  shows "startup lrn ps = Inl IndexError"
proof -
  obtain sc where
    ft: "fit_transform (map (\<lambda>p. [p]) ps) = Inr (sc, reshape_col (map (transform1 sc) ps))"
    using fit_transform_nonempty [OF assms(1)] by blast
  have "prepare_windows (reshape_col (map (transform1 sc) ps)) = ([], [])"
    using assms(2) by (simp add: prepare_windows_eq reshape_col_def)
  then show ?thesis
    unfolding startup_def by (simp add: ft reshape_lstm_def)
qed

lemma startup_empty: "startup lrn [] = Inl ValueError"
  by (simp add: startup_def fit_transform_def fit_def)

subsection \<open>The windows of a series\<close>

text \<open>
  C1. For every price series \<open>S\<close> longer than the window (10), the import succeeds and
  the window loop has produced exactly \<open>len(S) - window\<close> windows and as many targets;
  window \<open>i\<close> is the normalized prices at positions \<open>i\<close> to \<open>i + window - 1\<close> of
  \<open>S\<close>, in their order, and target \<open>i\<close> is the normalized price at position
  \<open>i + window\<close>.
\<close>

theorem windows_count_and_content:
  assumes "window < length S"
  shows "\<exists>st. startup lrn S = Inr st \<and>
           dados_scaled st = map (\<lambda>p. [transform1 (scaler st) p]) S \<and>
           length (X_arr st) = length S - window \<and>
           length (y_arr st) = length S - window \<and>
           (\<forall>i<length S - window.
              X_arr st ! i = map (\<lambda>j. transform1 (scaler st) (S ! (i + j))) [0..<window] \<and>
              y_arr st ! i = transform1 (scaler st) (S ! (i + window)))"
proof -
  obtain st where st: "startup lrn S = Inr st"
    and ds: "dados_scaled st = reshape_col (map (transform1 (scaler st)) S)"
    and pw: "prepare_windows (dados_scaled st) = (X_arr st, y_arr st)"
    using startup_long [OF assms, of lrn] by blast
  have lds: "length (dados_scaled st) = length S" by (simp add: ds reshape_col_def)
  have nth: "dados_scaled st ! k ! 0 = transform1 (scaler st) (S ! k)" if "k < length S" for k
    using that by (simp add: ds reshape_col_def)
  have len: "length (X_arr st) = length S - window" "length (y_arr st) = length S - window"
    using length_prepare_windows [of "dados_scaled st"] pw lds by simp_all
  have "X_arr st ! i = map (\<lambda>j. transform1 (scaler st) (S ! (i + j))) [0..<window] \<and>
        y_arr st ! i = transform1 (scaler st) (S ! (i + window))"
    if "i < length S - window" for i
    using prepare_windows_nth [OF pw, of i] that lds by (simp add: nth)
  with st ds len show ?thesis by (auto simp: reshape_col_def)
qed

theorem windows_count_and_content_witness:
  "window < length series12 \<and>
   (\<exists>st. startup zero_learners series12 = Inr st \<and>
      length (X_arr st) = 2 \<and> length (y_arr st) = 2 \<and>
      X_arr st ! 1 = map (transform1 (scaler st)) [12, 11, 13, 15, 14, 16, 18, 17, 19, 20] \<and>
      y_arr st ! 1 = transform1 (scaler st) 21)"
proof -
  have h: "window < length series12" by (simp add: window_def series12_def)
  have len: "length series12 - window = 2" by (simp add: window_def series12_def)
  obtain st where st: "startup zero_learners series12 = Inr st"
    and l: "length (X_arr st) = length series12 - window"
           "length (y_arr st) = length series12 - window"
    and nth: "\<forall>i<length series12 - window.
              X_arr st ! i =
                map (\<lambda>j. transform1 (scaler st) (series12 ! (i + j))) [0..<window] \<and>
              y_arr st ! i = transform1 (scaler st) (series12 ! (i + window))"
    using windows_count_and_content [OF h, of zero_learners] by blast
  from nth len have
    "X_arr st ! 1 = map (\<lambda>j. transform1 (scaler st) (series12 ! (1 + j))) [0..<window] \<and>
     y_arr st ! 1 = transform1 (scaler st) (series12 ! (1 + window))"
    by simp
  then have
    "X_arr st ! 1 = map (transform1 (scaler st)) [12, 11, 13, 15, 14, 16, 18, 17, 19, 20] \<and>
     y_arr st ! 1 = transform1 (scaler st) 21"
    by (simp add: upt_window) (simp add: series12_def window_def)
  with h st l len show ?thesis by auto
qed

subsection \<open>Predicting from the last window\<close>

lemma last_window_col:
  assumes "window \<le> length v"
  shows "concat (last_window (reshape_col v)) = map (\<lambda>j. v ! (length v - window + j)) [0..<window]"
proof -
  have "last_window (reshape_col v) = reshape_col (drop (length v - window) v)"
    by (simp add: last_window_def reshape_col_def drop_map)
  then have "concat (last_window (reshape_col v)) = drop (length v - window) v"
    by (simp add: concat_reshape_col)
  also have "\<dots> = map (\<lambda>j. v ! (length v - window + j)) [0..<window]"
    using assms by (auto intro!: nth_equalityI)
  finally show ?thesis .
qed

lemma previsao_col:
  assumes "dados_scaled st = reshape_col v" "window \<le> length v"
  defines "w \<equiv> map (\<lambda>j. v ! (length v - window + j)) [0..<window]"
  shows "previsao_lstm st = Inr (inverse1 (scaler st) (model_lstm st (map (\<lambda>x. [x]) w)))"
    and "previsao_mlp st = Inr (inverse1 (scaler st) (model_mlp st w))"
    and "previsao_reg_linear st = Inr (inverse1 (scaler st) (model_lr st w))"
proof -
  have c: "concat (last_window (dados_scaled st)) = w"
    using last_window_col [OF assms(2)] by (simp add: assms(1) w_def)
  have l: "length w = window" by (simp add: w_def)
  show "previsao_lstm st = Inr (inverse1 (scaler st) (model_lstm st (map (\<lambda>x. [x]) w)))"
    by (simp add: previsao_lstm_def reshape_1_w_1_def c l keras_predict_def
        inverse_transform_def)
  show "previsao_mlp st = Inr (inverse1 (scaler st) (model_mlp st w))"
    by (simp add: previsao_mlp_def reshape_1_w_def c l keras_predict_def
        inverse_transform_def)
  show "previsao_reg_linear st = Inr (inverse1 (scaler st) (model_lr st w))"
    by (simp add: previsao_reg_linear_def reshape_1_w_def c l lr_predict_def
        reshape_col_def inverse_transform_def)
qed

text \<open>
  C10. The tensor given to the LSTM is a reshape of the window matrix: \<open>X\<close> has shape
  (n - window, window), \<open>X_lstm\<close> has shape (n - window, window, 1), and
  \<open>X_lstm[i][j][0] = X[i][j]\<close> at every index; both hold the same values in the same
  order. The LSTM is fitted on \<open>(X_lstm, y)\<close>, the MLP and the linear regression on
  \<open>(X, y)\<close>.
\<close>

theorem lstm_tensor_is_reshape:
  assumes "window < length S"
  shows "\<exists>st. startup lrn S = Inr st \<and>
           length (X_arr st) = length S - window \<and>
           length (X_lstm st) = length S - window \<and>
           (\<forall>i<length S - window.
              length (X_arr st ! i) = window \<and>
              length (X_lstm st ! i) = window \<and>
              (\<forall>j<window.
                 length (X_lstm st ! i ! j) = 1 \<and> X_lstm st ! i ! j ! 0 = X_arr st ! i ! j)) \<and>
           concat (concat (X_lstm st)) = concat (X_arr st) \<and>
           model_lstm st = fit_lstm lrn (X_lstm st) (y_arr st) \<and>
           model_mlp st = fit_mlp lrn (X_arr st) (y_arr st) \<and>
           model_lr st = fit_lr lrn (X_arr st) (y_arr st)"
proof -
  obtain st where st: "startup lrn S = Inr st"
    and ds: "dados_scaled st = reshape_col (map (transform1 (scaler st)) S)"
    and pw: "prepare_windows (dados_scaled st) = (X_arr st, y_arr st)"
    and xl: "X_lstm st = map (map (\<lambda>v. [v])) (X_arr st)"
    and m: "model_lstm st = fit_lstm lrn (X_lstm st) (y_arr st)"
      "model_mlp st = fit_mlp lrn (X_arr st) (y_arr st)"
      "model_lr st = fit_lr lrn (X_arr st) (y_arr st)"
    using startup_long [OF assms, of lrn] by blast
  have lds: "length (dados_scaled st) = length S" by (simp add: ds reshape_col_def)
  have lX: "length (X_arr st) = length S - window"
    using length_prepare_windows(1) [of "dados_scaled st"] pw lds by simp
  have row: "length (X_arr st ! i) = window" if "i < length S - window" for i
    using prepare_windows_nth(1) [OF pw, of i] that lds by simp
  have flat: "concat (concat (map (map (\<lambda>v. [v])) X)) = concat X" for X :: array2
    by (induction X) (simp_all add: concat_reshape_col [unfolded reshape_col_def])
  have cell: "length (X_lstm st ! i ! j) = 1 \<and> X_lstm st ! i ! j ! 0 = X_arr st ! i ! j"
    if "i < length S - window" "j < window" for i j
    using that lX row [OF that(1)] by (simp add: xl)
  have "length (X_lstm st ! i) = window" if "i < length S - window" for i
    using that lX row [OF that] by (simp add: xl)
  with st m lX row cell show ?thesis
    by (simp add: flat [of "X_arr st", folded xl]) (simp add: xl)
qed

theorem lstm_tensor_is_reshape_witness:
  "window < length series12 \<and>
   (\<exists>st. startup zero_learners series12 = Inr st \<and>
      length (X_arr st) = 2 \<and> length (X_lstm st) = 2 \<and>
      length (X_lstm st ! 1) = 10 \<and> length (X_lstm st ! 1 ! 9) = 1 \<and>
      X_lstm st ! 1 ! 9 ! 0 = X_arr st ! 1 ! 9 \<and>
      model_mlp st = fit_mlp zero_learners (X_arr st) (y_arr st))"
proof -
  have h: "window < length series12" by (simp add: window_def series12_def)
  have len: "length series12 - window = 2" by (simp add: window_def series12_def)
  obtain st where st: "startup zero_learners series12 = Inr st"
    and l: "length (X_arr st) = length series12 - window"
           "length (X_lstm st) = length series12 - window"
    and c: "\<forall>i<length series12 - window.
              length (X_arr st ! i) = window \<and>
              length (X_lstm st ! i) = window \<and>
              (\<forall>j<window.
                 length (X_lstm st ! i ! j) = 1 \<and> X_lstm st ! i ! j ! 0 = X_arr st ! i ! j)"
    and m: "model_mlp st = fit_mlp zero_learners (X_arr st) (y_arr st)"
    using lstm_tensor_is_reshape [OF h, of zero_learners] by blast
  from c len have "length (X_lstm st ! 1) = window \<and>
      (\<forall>j<window. length (X_lstm st ! 1 ! j) = 1 \<and> X_lstm st ! 1 ! j ! 0 = X_arr st ! 1 ! j)"
    by simp
  then have "length (X_lstm st ! 1) = 10 \<and> length (X_lstm st ! 1 ! 9) = 1 \<and>
      X_lstm st ! 1 ! 9 ! 0 = X_arr st ! 1 ! 9"
    by (simp add: window_def)
  with h st l len m show ?thesis by auto
qed

subsection \<open>The fitted scaler\<close>

lemma column0_col: "column0 (map (\<lambda>p. [p]) ps) = ps"
  by (simp add: column0_def comp_def)

lemma handle_zeros_in_scale_pos: "0 < handle_zeros_in_scale r"
  by (simp add: handle_zeros_in_scale_def float_eps_def)

lemma fit_col:
  assumes "ps \<noteq> []"
  shows "fit (map (\<lambda>p. [p]) ps) =
           Inr \<lparr>data_min = Min (set ps), data_max = Max (set ps),
                data_range = Max (set ps) - Min (set ps),
                scale_val = 1 / handle_zeros_in_scale (Max (set ps) - Min (set ps)),
                min_val = 0 - Min (set ps) * (1 / handle_zeros_in_scale (Max (set ps) - Min (set ps)))\<rparr>"
  using assms by (simp add: fit_def column0_col Let_def)

lemma fitted_scale_pos:
  assumes "fit (map (\<lambda>p. [p]) ps) = Inr sc"
  shows "0 < scale_val sc"
proof -
  have "ps \<noteq> []" using assms by (auto simp: fit_def)
  from fit_col [OF this] assms show ?thesis
    by (auto simp: handle_zeros_in_scale_pos)
qed


lemma transform1_inverse1: "scale_val sc \<noteq> 0 \<Longrightarrow> transform1 sc (inverse1 sc x) = x"
  by (simp add: inverse1_def transform1_def)

lemma inverse1_inj: "scale_val sc \<noteq> 0 \<Longrightarrow> inj (inverse1 sc)"
  by (rule inj_on_inverseI [where g = "transform1 sc"]) (simp add: transform1_inverse1)

lemma transform1_fitted:
  assumes "fit (map (\<lambda>p. [p]) ps) = Inr sc"
  shows "transform1 sc x = (x - Min (set ps)) / handle_zeros_in_scale (Max (set ps) - Min (set ps))"
proof -
  have "ps \<noteq> []" using assms by (auto simp: fit_def)
  from fit_col [OF this] assms show ?thesis
    by (auto simp: transform1_def diff_divide_distrib)
qed


lemma min_max_series12: "Min (set series12) = 10" "Max (set series12) = 21"
  by (simp_all add: series12_def)

lemma handle_zeros_scale_range:
  "handle_zeros_in_scale (Max (set S) - Min (set S)) = scale_range S"
  by (simp add: handle_zeros_in_scale_def scale_range_def)

lemma scale_range_pos: "0 < scale_range S"
  using handle_zeros_in_scale_pos [of "Max (set S) - Min (set S)"]
  by (simp add: handle_zeros_scale_range)

lemma transform1_normalized:
  assumes "fit (map (\<lambda>p. [p]) S) = Inr sc"
  shows "transform1 sc x = normalized S x"
  by (simp add: transform1_fitted [OF assms] handle_zeros_scale_range normalized_def)

lemma inverse1_to_price:
  assumes "fit (map (\<lambda>p. [p]) S) = Inr sc"
  shows "inverse1 sc v = to_price S v"
proof -
  have ne: "S \<noteq> []" using assms by (auto simp: fit_def)
  have nz: "scale_range S \<noteq> 0" using scale_range_pos [of S] by simp
  from fit_col [OF ne] assms
  have sv: "scale_val sc = 1 / scale_range S"
    and mv: "min_val sc = - (Min (set S) / scale_range S)"
    by (auto simp: handle_zeros_scale_range)
  show ?thesis
    unfolding inverse1_def to_price_def sv mv using nz by (simp add: field_simps)
qed

lemma to_price_normalized: "to_price S (normalized S p) = p"
  using scale_range_pos [of S] by (simp add: to_price_def normalized_def)

lemma scale_range_series12: "scale_range series12 = 11"
  by (simp add: scale_range_def min_max_series12 float_eps_def)




subsection \<open>The error metric\<close>

lemma sum_sq_nonneg: "0 \<le> sum_list (map2 (\<lambda>a b. (a - b)\<^sup>2) A (B :: real list))"
  by (rule sum_list_nonneg) auto

lemma sum_sq_zero_iff:
  assumes "length A = length B"
  shows "sum_list (map2 (\<lambda>a b. (a - b)\<^sup>2) A B) = 0 \<longleftrightarrow> A = (B :: real list)"
  using assms
proof (induction A B rule: list_induct2)
  case Nil
  then show ?case by simp
next
  case (Cons a A b B)
  have "(a - b)\<^sup>2 + sum_list (map2 (\<lambda>a b. (a - b)\<^sup>2) A B) = 0 \<longleftrightarrow>
        (a - b)\<^sup>2 = 0 \<and> sum_list (map2 (\<lambda>a b. (a - b)\<^sup>2) A B) = 0"
    by (rule add_nonneg_eq_0_iff) (simp_all add: sum_sq_nonneg)
  with Cons.IH show ?case by simp
qed

lemma rmse_nonneg: "0 \<le> sqrt (mean (map2 (\<lambda>a b. (a - b)\<^sup>2) A B))"
  by (simp add: mean_def sum_sq_nonneg)

lemma rmse_zero_iff:
  assumes "length A = length B" "A \<noteq> []"
  shows "sqrt (mean (map2 (\<lambda>a b. (a - b)\<^sup>2) A B)) = 0 \<longleftrightarrow> A = B"
  using assms by (auto simp: mean_def sum_sq_zero_iff)

subsection \<open>A series of one repeated price\<close>

lemma startup_constant:
  assumes "window < n"
  shows "\<exists>st. startup lrn (replicate n c) = Inr st \<and>
           scaler st = \<lparr>data_min = c, data_max = c, data_range = 0, scale_val = 1,
                        min_val = - c\<rparr> \<and>
           dados_scaled st = replicate n [0] \<and>
           X_arr st = replicate (n - window) (replicate window 0) \<and>
           y_arr st = replicate (n - window) 0 \<and>
           X_lstm st = replicate (n - window) (replicate window [0]) \<and>
           model_lstm st = fit_lstm lrn (X_lstm st) (y_arr st) \<and>
           model_mlp st = fit_mlp lrn (X_arr st) (y_arr st) \<and>
           model_lr st = fit_lr lrn (X_arr st) (y_arr st) \<and>
           rmse_lstm_reais st = \<bar>model_lstm st (replicate window [0])\<bar> \<and>
           rmse_mlp_reais st = \<bar>model_mlp st (replicate window 0)\<bar> \<and>
           rmse_lr_reais st = \<bar>model_lr st (replicate window 0)\<bar>"
proof -
  have n: "window < length (replicate n c)" using assms by simp
  have ne: "replicate n c \<noteq> []" using assms by auto
  have set: "set (replicate n c) = {c}" using assms by auto
  obtain st where st: "startup lrn (replicate n c) = Inr st"
    and sc: "fit (map (\<lambda>p. [p]) (replicate n c)) = Inr (scaler st)"
    and ds: "dados_scaled st = reshape_col (map (transform1 (scaler st)) (replicate n c))"
    and pw: "prepare_windows (dados_scaled st) = (X_arr st, y_arr st)"
    and xl: "X_lstm st = map (map (\<lambda>v. [v])) (X_arr st)"
    and m: "model_lstm st = fit_lstm lrn (X_lstm st) (y_arr st)"
      "model_mlp st = fit_mlp lrn (X_arr st) (y_arr st)"
      "model_lr st = fit_lr lrn (X_arr st) (y_arr st)"
    and r: "rmse_lstm_reais st =
             sqrt (mean (map2 (\<lambda>a b. (a - b)\<^sup>2) (map (inverse1 (scaler st)) (y_arr st))
               (map (inverse1 (scaler st)) (map (model_lstm st) (X_lstm st)))))"
           "rmse_mlp_reais st =
             sqrt (mean (map2 (\<lambda>a b. (a - b)\<^sup>2) (map (inverse1 (scaler st)) (y_arr st))
               (map (inverse1 (scaler st)) (map (model_mlp st) (X_arr st)))))"
           "rmse_lr_reais st =
             sqrt (mean (map2 (\<lambda>a b. (a - b)\<^sup>2) (map (inverse1 (scaler st)) (y_arr st))
               (map (inverse1 (scaler st)) (map (model_lr st) (X_arr st)))))"
    using startup_long [OF n, of lrn] by blast
  have scv: "scaler st = \<lparr>data_min = c, data_max = c, data_range = 0, scale_val = 1,
                        min_val = - c\<rparr>"
    using fit_col [OF ne] sc
    by (simp add: set handle_zeros_in_scale_def float_eps_def)
  have dsv: "dados_scaled st = replicate n [0]"
    by (simp add: ds scv reshape_col_def transform1_def)
  have lds: "length (dados_scaled st) = n" by (simp add: dsv)
  have len: "length (X_arr st) = n - window" "length (y_arr st) = n - window"
    using length_prepare_windows [of "dados_scaled st"] pw lds by simp_all
  have X: "X_arr st = replicate (n - window) (replicate window 0)"
  proof (rule nth_equalityI)
    show "length (X_arr st) = length (replicate (n - window) (replicate window (0::real)))"
      by (simp add: len)
    fix i assume "i < length (X_arr st)"
    then have i: "i < length (dados_scaled st) - window" by (simp add: len lds)
    have "X_arr st ! i = map (\<lambda>j. dados_scaled st ! (i + j) ! 0) [0..<window]"
      by (rule prepare_windows_nth(1) [OF pw i])
    also have "\<dots> = replicate window 0"
      using i lds by (auto simp: dsv intro!: nth_equalityI)
    finally show "X_arr st ! i = replicate (n - window) (replicate window 0) ! i"
      using i lds by simp
  qed
  have y: "y_arr st = replicate (n - window) 0"
  proof (rule nth_equalityI)
    show "length (y_arr st) = length (replicate (n - window) (0::real))" by (simp add: len)
    fix i assume "i < length (y_arr st)"
    then have i: "i < length (dados_scaled st) - window" by (simp add: len lds)
    from prepare_windows_nth(2) [OF pw i] i lds
    show "y_arr st ! i = replicate (n - window) 0 ! i" by (simp add: dsv)
  qed
  have inv: "inverse1 (scaler st) v = v + c" for v
    by (simp add: scv inverse1_def)
  have k: "0 < n - window" using assms by simp
  have rm: "sqrt (mean (map2 (\<lambda>a b. (a - b)\<^sup>2) (map (inverse1 (scaler st)) (y_arr st))
               (map (inverse1 (scaler st)) (map f (replicate (n - window) z))))) = \<bar>f z\<bar>"
    for f :: "'z \<Rightarrow> real" and z
    using k by (simp add: y inv zip_replicate mean_def sum_list_replicate)
  have XL: "X_lstm st = replicate (n - window) (replicate window [0])"
    by (simp add: xl X)
  have "rmse_lstm_reais st = \<bar>model_lstm st (replicate window [0])\<bar>"
    unfolding r(1) XL by (rule rm)
  moreover have "rmse_mlp_reais st = \<bar>model_mlp st (replicate window 0)\<bar>"
    unfolding r(2) X by (rule rm)
  moreover have "rmse_lr_reais st = \<bar>model_lr st (replicate window 0)\<bar>"
    unfolding r(3) X by (rule rm)
  ultimately show ?thesis using st scv dsv X y m XL by simp
qed

lemma startup_const12:
  "startup zero_learners const12 =
     Inr \<lparr>scaler = \<lparr>data_min = 15, data_max = 15, data_range = 0, scale_val = 1,
                      min_val = - 15\<rparr>,
          dados_scaled = replicate 12 [0],
          X_arr = replicate 2 (replicate 10 0), y_arr = replicate 2 0,
          X_lstm = replicate 2 (replicate 10 [0]),
          model_lstm = (\<lambda>s. 0), rmse_lstm_reais = 0,
          model_mlp = (\<lambda>s. 0), rmse_mlp_reais = 0,
          model_lr = (\<lambda>s. 0), rmse_lr_reais = 0\<rparr>"
proof -
  have h: "window < 12" by (simp add: window_def)
  have d: "12 - window = 2" by (simp add: window_def)
  obtain st where st: "startup zero_learners (replicate 12 15) = Inr st"
    and f: "scaler st = \<lparr>data_min = 15, data_max = 15, data_range = 0, scale_val = 1,
                        min_val = - 15\<rparr>"
      "dados_scaled st = replicate 12 [0]"
      "X_arr st = replicate (12 - window) (replicate window 0)"
      "y_arr st = replicate (12 - window) 0"
      "X_lstm st = replicate (12 - window) (replicate window [0])"
      "model_lstm st = fit_lstm zero_learners (X_lstm st) (y_arr st)"
      "model_mlp st = fit_mlp zero_learners (X_arr st) (y_arr st)"
      "model_lr st = fit_lr zero_learners (X_arr st) (y_arr st)"
      "rmse_lstm_reais st = \<bar>model_lstm st (replicate window [0])\<bar>"
      "rmse_mlp_reais st = \<bar>model_mlp st (replicate window 0)\<bar>"
      "rmse_lr_reais st = \<bar>model_lr st (replicate window 0)\<bar>"
    using startup_constant [OF h, of zero_learners 15] by blast
  have "st = \<lparr>scaler = \<lparr>data_min = 15, data_max = 15, data_range = 0, scale_val = 1,
                      min_val = - 15\<rparr>,
          dados_scaled = replicate 12 [0],
          X_arr = replicate 2 (replicate 10 0), y_arr = replicate 2 0,
          X_lstm = replicate 2 (replicate 10 [0]),
          model_lstm = (\<lambda>s. 0), rmse_lstm_reais = 0,
          model_mlp = (\<lambda>s. 0), rmse_mlp_reais = 0,
          model_lr = (\<lambda>s. 0), rmse_lr_reais = 0\<rparr>"
    using f unfolding d by (cases st) (simp add: zero_learners_def window_def)
  with st show ?thesis by (simp add: const12_def)
qed

text \<open>
  C7. For every series longer than the window and each of the three models, the stored
  RMSE is not negative, and it is zero exactly when the model's prediction equals the
  target on every training sample (so zero only if every prediction matches).
\<close>

theorem rmse_nonneg_and_zero:
  assumes "window < length S"
  shows "\<exists>st. startup lrn S = Inr st \<and>
           0 \<le> rmse_lstm_reais st \<and> 0 \<le> rmse_mlp_reais st \<and> 0 \<le> rmse_lr_reais st \<and>
           (rmse_lstm_reais st = 0 \<longleftrightarrow> map (model_lstm st) (X_lstm st) = y_arr st) \<and>
           (rmse_mlp_reais st = 0 \<longleftrightarrow> map (model_mlp st) (X_arr st) = y_arr st) \<and>
           (rmse_lr_reais st = 0 \<longleftrightarrow> map (model_lr st) (X_arr st) = y_arr st)"
proof -
  obtain st where st: "startup lrn S = Inr st"
    and sc: "fit (map (\<lambda>p. [p]) S) = Inr (scaler st)"
    and ds: "dados_scaled st = reshape_col (map (transform1 (scaler st)) S)"
    and pw: "prepare_windows (dados_scaled st) = (X_arr st, y_arr st)"
    and xl: "X_lstm st = map (map (\<lambda>v. [v])) (X_arr st)"
    and r: "rmse_lstm_reais st =
             sqrt (mean (map2 (\<lambda>a b. (a - b)\<^sup>2) (map (inverse1 (scaler st)) (y_arr st))
               (map (inverse1 (scaler st)) (map (model_lstm st) (X_lstm st)))))"
           "rmse_mlp_reais st =
             sqrt (mean (map2 (\<lambda>a b. (a - b)\<^sup>2) (map (inverse1 (scaler st)) (y_arr st))
               (map (inverse1 (scaler st)) (map (model_mlp st) (X_arr st)))))"
           "rmse_lr_reais st =
             sqrt (mean (map2 (\<lambda>a b. (a - b)\<^sup>2) (map (inverse1 (scaler st)) (y_arr st))
               (map (inverse1 (scaler st)) (map (model_lr st) (X_arr st)))))"
    using startup_long [OF assms, of lrn] by blast
  have lds: "length (dados_scaled st) = length S" by (simp add: ds reshape_col_def)
  have len: "length (X_arr st) = length S - window" "length (y_arr st) = length S - window"
    using length_prepare_windows [of "dados_scaled st"] pw lds by simp_all
  have yne: "map (inverse1 (scaler st)) (y_arr st) \<noteq> []" using len assms by auto
  have inj: "inj (inverse1 (scaler st))"
    using fitted_scale_pos [OF sc] by (simp add: inverse1_inj)
  have z: "sqrt (mean (map2 (\<lambda>a b. (a - b)\<^sup>2) (map (inverse1 (scaler st)) (y_arr st))
               (map (inverse1 (scaler st)) (map f Z)))) = 0 \<longleftrightarrow> map f Z = y_arr st"
    if "length Z = length (X_arr st)" for f :: "'z \<Rightarrow> real" and Z
  proof -
    have "length (map (inverse1 (scaler st)) (y_arr st)) =
          length (map (inverse1 (scaler st)) (map f Z))"
      using that len by simp
    from rmse_zero_iff [OF this yne]
    show ?thesis using inj_map_eq_map [OF inj] by (metis (no_types))
  qed
  have lxl: "length (X_lstm st) = length (X_arr st)" by (simp add: xl)
  have "0 \<le> rmse_lstm_reais st" "0 \<le> rmse_mlp_reais st" "0 \<le> rmse_lr_reais st"
    unfolding r by (rule rmse_nonneg)+
  moreover have "rmse_lstm_reais st = 0 \<longleftrightarrow> map (model_lstm st) (X_lstm st) = y_arr st"
    unfolding r by (rule z [OF lxl])
  moreover have "rmse_mlp_reais st = 0 \<longleftrightarrow> map (model_mlp st) (X_arr st) = y_arr st"
    unfolding r by (rule z [OF refl])
  moreover have "rmse_lr_reais st = 0 \<longleftrightarrow> map (model_lr st) (X_arr st) = y_arr st"
    unfolding r by (rule z [OF refl])
  ultimately show ?thesis using st by blast
qed

theorem rmse_nonneg_and_zero_witness:
  "window < length const12 \<and>
   (\<exists>st. startup zero_learners const12 = Inr st \<and>
      0 \<le> rmse_lstm_reais st \<and>
      map (model_lstm st) (X_lstm st) = y_arr st \<and> rmse_lstm_reais st = 0 \<and>
      map (model_mlp st) (X_arr st) = y_arr st \<and> rmse_mlp_reais st = 0 \<and>
      map (model_lr st) (X_arr st) = y_arr st \<and> rmse_lr_reais st = 0)"
proof -
  have h: "window < length const12" by (simp add: window_def const12_def)
  obtain st where st: "startup zero_learners const12 = Inr st"
    and nn: "0 \<le> rmse_lstm_reais st"
    and z: "rmse_lstm_reais st = 0 \<longleftrightarrow> map (model_lstm st) (X_lstm st) = y_arr st"
      "rmse_mlp_reais st = 0 \<longleftrightarrow> map (model_mlp st) (X_arr st) = y_arr st"
      "rmse_lr_reais st = 0 \<longleftrightarrow> map (model_lr st) (X_arr st) = y_arr st"
    using rmse_nonneg_and_zero [OF h, of zero_learners] by blast
  have p: "map (model_lstm st) (X_lstm st) = y_arr st"
    "map (model_mlp st) (X_arr st) = y_arr st"
    "map (model_lr st) (X_arr st) = y_arr st"
    using st by (auto simp: startup_const12)
  with h st nn z show ?thesis by blast
qed

lemma fit_transform_constant:
  assumes "0 < n"
  shows "fit_transform (map (\<lambda>p. [p]) (replicate n c)) =
           Inr (\<lparr>data_min = c, data_max = c, data_range = 0, scale_val = 1, min_val = - c\<rparr>,
                replicate n [0])"
proof -
  have ne: "replicate n c \<noteq> []" using assms by auto
  have set: "set (replicate n c) = {c}" using assms by auto
  have "fit (map (\<lambda>p. [p]) (replicate n c)) =
          Inr \<lparr>data_min = c, data_max = c, data_range = 0, scale_val = 1, min_val = - c\<rparr>"
    using fit_col [OF ne] by (simp add: set handle_zeros_in_scale_def float_eps_def)
  then show ?thesis
    by (simp add: fit_transform_def transform_def transform1_def)
qed

text \<open>
  C3, as the code has it. A series of one repeated price \<open>c\<close> is not an error: the
  scaler replaces the zero range by 1, so the scale is 1 and every normalized price is
  0, without a division by zero. When the series is longer than the window the import
  completes: each RMSE is the absolute value of the model's output on the all-zero
  window, and each prediction is that output plus \<open>c\<close>.
\<close>

theorem constant_series_starts:
  assumes "window < n"
  shows "fit_transform (map (\<lambda>p. [p]) (replicate n c)) =
           Inr (\<lparr>data_min = c, data_max = c, data_range = 0, scale_val = 1, min_val = - c\<rparr>,
                replicate n [0]) \<and>
         (\<exists>st. startup lrn (replicate n c) = Inr st \<and>
            scaler st = \<lparr>data_min = c, data_max = c, data_range = 0, scale_val = 1,
                         min_val = - c\<rparr> \<and>
            dados_scaled st = replicate n [0] \<and>
            X_arr st = replicate (n - window) (replicate window 0) \<and>
            y_arr st = replicate (n - window) 0 \<and>
            rmse_lstm_reais st = \<bar>model_lstm st (replicate window [0])\<bar> \<and>
            rmse_mlp_reais st = \<bar>model_mlp st (replicate window 0)\<bar> \<and>
            rmse_lr_reais st = \<bar>model_lr st (replicate window 0)\<bar> \<and>
            previsao_lstm st = Inr (model_lstm st (replicate window [0]) + c) \<and>
            previsao_mlp st = Inr (model_mlp st (replicate window 0) + c) \<and>
            previsao_reg_linear st = Inr (model_lr st (replicate window 0) + c))"
proof -
  have n0: "0 < n" using assms by simp
  obtain st where st: "startup lrn (replicate n c) = Inr st"
    and f: "scaler st = \<lparr>data_min = c, data_max = c, data_range = 0, scale_val = 1,
                        min_val = - c\<rparr>"
      "dados_scaled st = replicate n [0]"
      "X_arr st = replicate (n - window) (replicate window 0)"
      "y_arr st = replicate (n - window) 0"
      "rmse_lstm_reais st = \<bar>model_lstm st (replicate window [0])\<bar>"
      "rmse_mlp_reais st = \<bar>model_mlp st (replicate window 0)\<bar>"
      "rmse_lr_reais st = \<bar>model_lr st (replicate window 0)\<bar>"
    using startup_constant [OF assms, of lrn c] by blast
  have ds: "dados_scaled st = reshape_col (replicate n 0)"
    by (simp add: f(2) reshape_col_def)
  have le: "window \<le> length (replicate n (0::real))" using assms by simp
  have w: "map (\<lambda>j. replicate n (0::real) ! (length (replicate n (0::real)) - window + j))
             [0..<window] = replicate window 0"
    using assms by (auto intro!: nth_equalityI)
  have inv: "inverse1 (scaler st) v = v + c" for v
    by (simp add: f(1) inverse1_def)
  have "previsao_lstm st = Inr (model_lstm st (replicate window [0]) + c)"
    "previsao_mlp st = Inr (model_mlp st (replicate window 0) + c)"
    "previsao_reg_linear st = Inr (model_lr st (replicate window 0) + c)"
    using previsao_col [OF ds le] unfolding w inv by simp_all
  with st f fit_transform_constant [OF n0, of c] show ?thesis by blast
qed

theorem constant_series_starts_witness:
  "window < 12 \<and>
   fit_transform (map (\<lambda>p. [p]) (replicate 12 15)) =
     Inr (\<lparr>data_min = 15, data_max = 15, data_range = 0, scale_val = 1, min_val = - 15\<rparr>,
          replicate 12 [0]) \<and>
   (\<exists>st. startup zero_learners (replicate 12 15) = Inr st \<and>
      dados_scaled st = replicate 12 [0] \<and>
      rmse_lr_reais st = \<bar>model_lr st (replicate window 0)\<bar> \<and>
      previsao_reg_linear st = Inr (model_lr st (replicate window 0) + 15))"
proof -
  have h: "window < 12" by (simp add: window_def)
  show ?thesis
    using h constant_series_starts [OF h, of 15 zero_learners] by blast
qed

text \<open>
  C3, as the specification states it, fails: on twelve copies of 15.0 the import returns
  a module, not an error.
\<close>

theorem constant_series_counterexample:
  "startup zero_learners const12 =
     Inr \<lparr>scaler = \<lparr>data_min = 15, data_max = 15, data_range = 0, scale_val = 1,
                      min_val = - 15\<rparr>,
          dados_scaled = replicate 12 [0],
          X_arr = replicate 2 (replicate 10 0), y_arr = replicate 2 0,
          X_lstm = replicate 2 (replicate 10 [0]),
          model_lstm = (\<lambda>s. 0), rmse_lstm_reais = 0,
          model_mlp = (\<lambda>s. 0), rmse_mlp_reais = 0,
          model_lr = (\<lambda>s. 0), rmse_lr_reais = 0\<rparr>"
  by (rule startup_const12)

subsection \<open>A series no longer than the window\<close>

lemma prepare_windows_short:
  "length ds \<le> window \<Longrightarrow> prepare_windows ds = ([], [])"
  by (simp add: prepare_windows_eq)

text \<open>
  C4, as the code has it. For a series of at most \<open>window\<close> prices the window loop
  itself does not fail: it ends with no window and no target. The import fails
  afterwards, with the IndexError of \<open>X.shape[1]\<close> on the empty array (line 20), or,
  for an empty series, before the loop with the ValueError of the scaler. No model is
  fitted.
\<close>

theorem short_series_fails_at_reshape:
  assumes "length ps \<le> window"
  shows "prepare_windows (map (\<lambda>p. [transform1 sc p]) ps) = ([], []) \<and>
         reshape_lstm [] = Inl IndexError \<and>
         startup lrn ps = Inl (if ps = [] then ValueError else IndexError)"
  using assms startup_short [of ps lrn] startup_empty [of lrn]
  by (simp add: prepare_windows_short reshape_lstm_def)

theorem short_series_fails_at_reshape_witness:
  "length short3 \<le> window \<and> length ([] :: real list) \<le> window \<and>
   prepare_windows [[0], [1], [1 / 2]] = ([], []) \<and>
   startup zero_learners short3 = Inl IndexError \<and>
   startup zero_learners [] = Inl ValueError"
proof -
  let ?sc = "\<lparr>data_min = 10, data_max = 12, data_range = 2, scale_val = 1 / 2,
               min_val = - 5\<rparr>"
  have h: "length short3 \<le> window" by (simp add: short3_def window_def)
  have e: "length ([] :: real list) \<le> window" by simp
  have ne: "short3 \<noteq> []" by (simp add: short3_def)
  have v: "map (\<lambda>p. [transform1 ?sc p]) short3 = [[0], [1], [1 / 2]]"
    by (simp add: short3_def transform1_def)
  show ?thesis
    using h short_series_fails_at_reshape [OF h, of ?sc zero_learners]
      short_series_fails_at_reshape [OF e, of ?sc zero_learners] ne
    unfolding v by simp
qed

text \<open>
  C4, as the specification states it, fails: on a series of three prices the scaler and
  the window loop succeed with zero samples, and the error that ends the import is the
  IndexError of the reshape.
\<close>

theorem short_series_counterexample:
  "fit_transform [[10], [12], [11]] =
     Inr (\<lparr>data_min = 10, data_max = 12, data_range = 2, scale_val = 1 / 2, min_val = - 5\<rparr>,
          [[0], [1], [1 / 2]]) \<and>
   prepare_windows [[0], [1], [1 / 2]] = ([], []) \<and>
   startup zero_learners short3 = Inl IndexError"
proof -
  have "fit_transform [[10], [12], [11]] =
     Inr (\<lparr>data_min = 10, data_max = 12, data_range = 2, scale_val = 1 / 2, min_val = - 5\<rparr>,
          [[0], [1], [1 / 2]])"
    by (simp add: fit_transform_def fit_def column0_def Let_def handle_zeros_in_scale_def
        float_eps_def transform_def transform1_def)
  moreover have "prepare_windows [[0], [1], [1 / 2]] = ([], [])"
    by (simp add: prepare_windows_short window_def)
  moreover have "startup zero_learners short3 = Inl IndexError"
    by (rule startup_short) (simp_all add: short3_def window_def)
  ultimately show ?thesis by blast
qed

subsection \<open>Predictions in price units\<close>

text \<open>
  C2. For every series \<open>S\<close> longer than the window, each of \<open>previsao_lstm\<close>,
  \<open>previsao_mlp\<close> and \<open>previsao_reg_linear\<close> returns one price: its model is
  applied to the single window made of the last \<open>window\<close> prices of \<open>S\<close>, each
  normalized as \<open>(p - min S) / range\<close> and in their order, and the model's output
  \<open>v\<close> is returned as \<open>min S + v * range\<close>, a price in the units of \<open>S\<close>. The LSTM
  receives the window as a column of one-element rows, the other two as a flat row. The
  statement does not need the series to be non-degenerate.
\<close>

theorem predict_next_in_price_units:
  assumes "window < length S"
  shows "\<exists>st. startup lrn S = Inr st \<and>
           previsao_lstm st =
             Inr (to_price S (model_lstm st
               (map (\<lambda>j. [normalized S (S ! (length S - window + j))]) [0..<window]))) \<and>
           previsao_mlp st =
             Inr (to_price S (model_mlp st
               (map (\<lambda>j. normalized S (S ! (length S - window + j))) [0..<window]))) \<and>
           previsao_reg_linear st =
             Inr (to_price S (model_lr st
               (map (\<lambda>j. normalized S (S ! (length S - window + j))) [0..<window])))"
proof -
  obtain st where st: "startup lrn S = Inr st"
    and sc: "fit (map (\<lambda>p. [p]) S) = Inr (scaler st)"
    and ds: "dados_scaled st = reshape_col (map (transform1 (scaler st)) S)"
    using startup_long [OF assms, of lrn] by blast
  have tr: "transform1 (scaler st) = normalized S"
    by (rule ext) (rule transform1_normalized [OF sc])
  have inv: "inverse1 (scaler st) = to_price S"
    by (rule ext) (rule inverse1_to_price [OF sc])
  have ds': "dados_scaled st = reshape_col (map (normalized S) S)" by (simp add: ds tr)
  have le: "window \<le> length (map (normalized S) S)" using assms by simp
  have w: "map (\<lambda>j. map (normalized S) S ! (length (map (normalized S) S) - window + j))
             [0..<window]
         = map (\<lambda>j. normalized S (S ! (length S - window + j))) [0..<window]"
    using assms by simp
  show ?thesis
    using st previsao_col [OF ds' le] unfolding w inv by (simp add: comp_def)
qed

theorem predict_next_in_price_units_witness:
  "window < length series12 \<and>
   (\<exists>st. startup zero_learners series12 = Inr st \<and>
      previsao_lstm st = Inr 10 \<and> previsao_mlp st = Inr 10 \<and>
      previsao_reg_linear st = Inr 10) \<and>
   (\<exists>st. startup one_learners series12 = Inr st \<and>
      previsao_lstm st = Inr 21 \<and> previsao_mlp st = Inr 21 \<and>
      previsao_reg_linear st = Inr 10)"
proof -
  have h: "window < length series12" by (simp add: window_def series12_def)
  have m0: "model_lstm st = (\<lambda>s. 0) \<and> model_mlp st = (\<lambda>s. 0) \<and> model_lr st = (\<lambda>s. 0)"
    if "startup zero_learners series12 = Inr st" for st
    using startup_long [OF h, of zero_learners] that by (auto simp: zero_learners_def)
  have m1: "model_lstm st = (\<lambda>s. 1) \<and> model_mlp st = (\<lambda>s. 1) \<and> model_lr st = (\<lambda>s. 0)"
    if "startup one_learners series12 = Inr st" for st
    using startup_long [OF h, of one_learners] that by (auto simp: one_learners_def)
  have p0: "to_price series12 0 = 10" and p1: "to_price series12 1 = 21"
    by (simp_all add: to_price_def scale_range_series12 min_max_series12)
  have a: "\<exists>st. startup zero_learners series12 = Inr st \<and>
      previsao_lstm st = Inr 10 \<and> previsao_mlp st = Inr 10 \<and>
      previsao_reg_linear st = Inr 10"
    using predict_next_in_price_units [OF h, of zero_learners] m0 by (auto simp: p0)
  have b: "\<exists>st. startup one_learners series12 = Inr st \<and>
      previsao_lstm st = Inr 21 \<and> previsao_mlp st = Inr 21 \<and>
      previsao_reg_linear st = Inr 10"
    using predict_next_in_price_units [OF h, of one_learners] m1 by (auto simp: p0 p1)
  from h a b show ?thesis by blast
qed

subsection \<open>The error metric in price units\<close>

lemma map2_sq_index:
  fixes A B :: "real list"
  assumes "length A = length B"
  shows "map2 (\<lambda>a b. (a - b)\<^sup>2) A B = map (\<lambda>i. (B ! i - A ! i)\<^sup>2) [0..<length B]"
  using assms by (auto intro!: nth_equalityI simp: power2_commute [of "A ! _"])

lemma code_rmse_is_spec_rmse:
  assumes "length y = length P"
  shows "sqrt (mean (map2 (\<lambda>a b. (a - b)\<^sup>2) (map f y) (map f P))) = spec_rmse f P y"
proof -
  have "map2 (\<lambda>a b. (a - b)\<^sup>2) (map f y) (map f P) =
        map (\<lambda>i. (map f P ! i - map f y ! i)\<^sup>2) [0..<length (map f P)]"
    by (rule map2_sq_index) (simp add: assms)
  also have "\<dots> = map (\<lambda>i. (f (P ! i) - f (y ! i))\<^sup>2) [0..<length P]"
    using assms by simp
  finally show ?thesis by (simp add: mean_def spec_rmse_def)
qed

text \<open>
  C6. For every series \<open>S\<close> longer than the window and each of the three models, the
  RMSE the import stores is the square root of the sum, over all \<open>len(S) - window\<close>
  training samples, of the squared difference between the prediction and the target,
  both first taken back to price units as \<open>min S + v * range\<close>, divided by the number
  of samples. The target of sample \<open>i\<close>, taken back to price units, is the price
  \<open>S[i + window]\<close>.
\<close>

theorem rmse_in_price_units:
  assumes "window < length S"
  shows "\<exists>st. startup lrn S = Inr st \<and>
           length (X_lstm st) = length S - window \<and>
           length (X_arr st) = length S - window \<and>
           length (y_arr st) = length S - window \<and>
           (\<forall>i<length S - window. to_price S (y_arr st ! i) = S ! (i + window)) \<and>
           rmse_lstm_reais st =
             spec_rmse (to_price S) (map (model_lstm st) (X_lstm st)) (y_arr st) \<and>
           rmse_mlp_reais st =
             spec_rmse (to_price S) (map (model_mlp st) (X_arr st)) (y_arr st) \<and>
           rmse_lr_reais st =
             spec_rmse (to_price S) (map (model_lr st) (X_arr st)) (y_arr st)"
proof -
  obtain st where st: "startup lrn S = Inr st"
    and sc: "fit (map (\<lambda>p. [p]) S) = Inr (scaler st)"
    and ds: "dados_scaled st = reshape_col (map (transform1 (scaler st)) S)"
    and pw: "prepare_windows (dados_scaled st) = (X_arr st, y_arr st)"
    and xl: "X_lstm st = map (map (\<lambda>v. [v])) (X_arr st)"
    and r: "rmse_lstm_reais st =
             sqrt (mean (map2 (\<lambda>a b. (a - b)\<^sup>2) (map (inverse1 (scaler st)) (y_arr st))
               (map (inverse1 (scaler st)) (map (model_lstm st) (X_lstm st)))))"
           "rmse_mlp_reais st =
             sqrt (mean (map2 (\<lambda>a b. (a - b)\<^sup>2) (map (inverse1 (scaler st)) (y_arr st))
               (map (inverse1 (scaler st)) (map (model_mlp st) (X_arr st)))))"
           "rmse_lr_reais st =
             sqrt (mean (map2 (\<lambda>a b. (a - b)\<^sup>2) (map (inverse1 (scaler st)) (y_arr st))
               (map (inverse1 (scaler st)) (map (model_lr st) (X_arr st)))))"
    using startup_long [OF assms, of lrn] by blast
  have tr: "transform1 (scaler st) = normalized S"
    by (rule ext) (rule transform1_normalized [OF sc])
  have inv: "inverse1 (scaler st) = to_price S"
    by (rule ext) (rule inverse1_to_price [OF sc])
  have lds: "length (dados_scaled st) = length S" by (simp add: ds reshape_col_def)
  have len: "length (X_arr st) = length S - window" "length (y_arr st) = length S - window"
    using length_prepare_windows [of "dados_scaled st"] pw lds by simp_all
  have lxl: "length (X_lstm st) = length S - window" by (simp add: xl len)
  have tgt: "to_price S (y_arr st ! i) = S ! (i + window)" if "i < length S - window" for i
  proof -
    have "y_arr st ! i = dados_scaled st ! (i + window) ! 0"
      using prepare_windows_nth(2) [OF pw, of i] that lds by simp
    also have "\<dots> = normalized S (S ! (i + window))"
      using that by (simp add: ds tr reshape_col_def)
    finally show ?thesis by (simp add: to_price_normalized)
  qed
  have "rmse_lstm_reais st =
          spec_rmse (to_price S) (map (model_lstm st) (X_lstm st)) (y_arr st)"
    unfolding r inv by (rule code_rmse_is_spec_rmse) (simp add: len lxl)
  moreover have "rmse_mlp_reais st =
          spec_rmse (to_price S) (map (model_mlp st) (X_arr st)) (y_arr st)"
    unfolding r inv by (rule code_rmse_is_spec_rmse) (simp add: len)
  moreover have "rmse_lr_reais st =
          spec_rmse (to_price S) (map (model_lr st) (X_arr st)) (y_arr st)"
    unfolding r inv by (rule code_rmse_is_spec_rmse) (simp add: len)
  ultimately show ?thesis using st len lxl tgt by blast
qed

theorem rmse_in_price_units_witness:
  "window < length series12 \<and>
   (\<exists>st. startup zero_learners series12 = Inr st \<and>
      length (y_arr st) = 2 \<and>
      to_price series12 (y_arr st ! 0) = 20 \<and> to_price series12 (y_arr st ! 1) = 21 \<and>
      rmse_lstm_reais st = sqrt (221 / 2) \<and>
      rmse_mlp_reais st = sqrt (221 / 2) \<and>
      rmse_lr_reais st = sqrt (221 / 2))"
proof -
  have h: "window < length series12" by (simp add: window_def series12_def)
  have d: "length series12 - window = 2" by (simp add: window_def series12_def)
  obtain st where st: "startup zero_learners series12 = Inr st"
    and l: "length (X_lstm st) = length series12 - window"
      "length (X_arr st) = length series12 - window"
      "length (y_arr st) = length series12 - window"
    and t: "\<forall>i<length series12 - window.
              to_price series12 (y_arr st ! i) = series12 ! (i + window)"
    and r: "rmse_lstm_reais st =
             spec_rmse (to_price series12) (map (model_lstm st) (X_lstm st)) (y_arr st)"
           "rmse_mlp_reais st =
             spec_rmse (to_price series12) (map (model_mlp st) (X_arr st)) (y_arr st)"
           "rmse_lr_reais st =
             spec_rmse (to_price series12) (map (model_lr st) (X_arr st)) (y_arr st)"
    using rmse_in_price_units [OF h, of zero_learners] by blast
  have m0: "model_lstm st = (\<lambda>s. 0)" "model_mlp st = (\<lambda>s. 0)" "model_lr st = (\<lambda>s. 0)"
    using startup_long [OF h, of zero_learners] st by (auto simp: zero_learners_def)
  have p0: "to_price series12 0 = 10"
    by (simp add: to_price_def scale_range_series12 min_max_series12)
  have t0: "to_price series12 (y_arr st ! 0) = 20" and t1: "to_price series12 (y_arr st ! 1) = 21"
    using t d by (simp_all add: series12_def window_def)
  have two: "[0..<2] = [0, Suc 0]" by (simp add: upt_rec)
  have v: "spec_rmse (to_price series12) (map (\<lambda>s. 0) Z) (y_arr st) = sqrt (221 / 2)"
    if "length Z = 2" for Z :: "'z list"
    using that t1 by (simp add: spec_rmse_def two p0 t0)
  show ?thesis
    using h st l t0 t1 r unfolding m0 d by (simp add: v)
qed

end
